theory Spec2Isabelle
  imports Complex_Main "HOL-Library.Product_Lexorder"
begin

section \<open>Timestamps\<close>

text \<open>
  The notebook parses the \<open>Date\<close> column with the format \<open>%d-%b-%y\<close>, so every
  timestamp it handles is a calendar day at midnight. A timestamp is the triple
  (year, month, day); the lexicographic order on triples is the chronological order.
\<close>

type_synonym date = "int \<times> int \<times> int"

definition year :: "date \<Rightarrow> int" where
  "year d = fst d"

definition month :: "date \<Rightarrow> int" where
  "month d = fst (snd d)"

definition day :: "date \<Rightarrow> int" where
  "day d = snd (snd d)"

definition is_leap_year :: "int \<Rightarrow> bool" where
  "is_leap_year y \<longleftrightarrow> (y mod 4 = 0 \<and> y mod 100 \<noteq> 0) \<or> y mod 400 = 0"

definition days_in_month :: "int \<Rightarrow> int \<Rightarrow> int" where
  "days_in_month y m =
     (if m = 2 then (if is_leap_year y then 29 else 28)
      else if m = 4 \<or> m = 6 \<or> m = 9 \<or> m = 11 then 30
      else 31)"

text \<open>
  \<open>Timestamp + pd.DateOffset(months=n)\<close>: the month is shifted, the year carries, and
  the day is clipped to the length of the target month (pandas' \<open>shift_month\<close>).
  Python's \<open>//\<close> and \<open>%\<close> round towards minus infinity, as \<open>div\<close> and \<open>mod\<close> do on
  \<open>int\<close> for a positive divisor.
\<close>

definition shift_month :: "date \<Rightarrow> int \<Rightarrow> date" where
  "shift_month stamp months =
     (let dy = (month stamp + months) div 12;
          mo = (month stamp + months) mod 12;
          dy' = (if mo = 0 then dy - 1 else dy);
          mo' = (if mo = 0 then 12 else mo);
          yr = year stamp + dy'
      in (yr, mo', min (day stamp) (days_in_month yr mo')))"

text \<open>\<open>Timestamp - pd.DateOffset(months=n)\<close> adds the negated offset.\<close>

definition sub_DateOffset_months :: "date \<Rightarrow> int \<Rightarrow> date" where
  "sub_DateOffset_months stamp n = shift_month stamp (- n)"

text \<open>\<open>.dt.to_period('M').dt.to_timestamp()\<close>: the first day of the containing month.\<close>

definition to_period_M_to_timestamp :: "date \<Rightarrow> date" where
  "to_period_M_to_timestamp d = (year d, month d, 1)"

text \<open>\<open>Series.max()\<close> over a column of timestamps; \<open>None\<close> is \<open>NaT\<close>, the result on an
  empty column.\<close>

definition max_ds :: "date list \<Rightarrow> date option" where
  "max_ds ds = (case ds of [] \<Rightarrow> None | d # rest \<Rightarrow> Some (fold max rest d))"

section \<open>Section 4 of the notebook: the monthly aggregation\<close>

text \<open>
  A row of the data frame after \<open>pd.to_datetime\<close>, with the four columns the notebook
  reads. Every row has a parsed date and an amount: missing cells are not modelled.
  The amount column is kept polymorphic: the aggregation only adds amounts, so the
  results below hold for exact numbers as well as for wrapping machine integers.
\<close>

record 'a transaction =
  Date :: date
  City :: string
  Exp_Type :: string
  Amount :: 'a

definition YearMonth :: "'a transaction \<Rightarrow> date" where
  "YearMonth t = to_period_M_to_timestamp (Date t)"

text \<open>\<open>mask = (df['City'] == city) & (df['Exp Type'] == category)\<close>, as a predicate
  on rows; string equality is exact.\<close>

definition mask_df :: "string \<Rightarrow> string \<Rightarrow> 'a transaction \<Rightarrow> bool" where
  "mask_df city category t \<longleftrightarrow> City t = city \<and> Exp_Type t = category"

text \<open>\<open>df_city_cat = df.loc[mask, ['YearMonth', 'Amount']]\<close>\<close>

definition df_city_cat :: "'a transaction list \<Rightarrow> string \<Rightarrow> string \<Rightarrow> (date \<times> 'a) list" where
  "df_city_cat df city category =
     map (\<lambda>t. (YearMonth t, Amount t)) (filter (mask_df city category) df)"

text \<open>
  \<open>.groupby('YearMonth')['Amount'].sum().reset_index()\<close>: one row per distinct key, keys
  in ascending order (\<open>sort=True\<close> is the default), each with the sum of its group's
  amounts taken in row order.
\<close>

definition groupby_sum :: "(date \<times> 'a) list \<Rightarrow> (date \<times> 'a::monoid_add) list" where
  "groupby_sum rows =
     map (\<lambda>k. (k, sum_list (map snd (filter (\<lambda>r. fst r = k) rows))))
         (sort (remdups (map fst rows)))"

definition monthly_spend ::
  "'a transaction list \<Rightarrow> string \<Rightarrow> string \<Rightarrow> (date \<times> 'a::monoid_add) list" where
  "monthly_spend df city category = groupby_sum (df_city_cat df city category)"

section \<open>Section 6 of the notebook: the train/test split\<close>

text \<open>
  \<open>train_cutoff = monthly_spend['ds'].max() - pd.DateOffset(months=6)\<close>. On an empty
  frame the maximum is \<open>NaT\<close> and so is the cutoff.
\<close>

definition train_cutoff :: "(date \<times> 'a) list \<Rightarrow> date option" where
  "train_cutoff monthly = map_option (\<lambda>d. sub_DateOffset_months d 6) (max_ds (map fst monthly))"

text \<open>Comparisons of a timestamp with a possibly missing one; against \<open>NaT\<close> both
  \<open><=\<close> and \<open>>\<close> are false.\<close>

definition le_NaT :: "date \<Rightarrow> date option \<Rightarrow> bool" where
  "le_NaT d c = (case c of None \<Rightarrow> False | Some c' \<Rightarrow> d \<le> c')"

definition gt_NaT :: "date \<Rightarrow> date option \<Rightarrow> bool" where
  "gt_NaT d c = (case c of None \<Rightarrow> False | Some c' \<Rightarrow> c' < d)"

definition train_df :: "(date \<times> 'a) list \<Rightarrow> (date \<times> 'a) list" where
  "train_df monthly = filter (\<lambda>r. le_NaT (fst r) (train_cutoff monthly)) monthly"

definition test_df :: "(date \<times> 'a) list \<Rightarrow> (date \<times> 'a) list" where
  "test_df monthly = filter (\<lambda>r. gt_NaT (fst r) (train_cutoff monthly)) monthly"

text \<open>Month-start timestamps, and what it means for a column of dates to run through
  consecutive calendar months.\<close>

definition is_month_start :: "date \<Rightarrow> bool" where
  "is_month_start d \<longleftrightarrow> day d = 1 \<and> 1 \<le> month d \<and> month d \<le> 12"

definition next_month_start :: "date \<Rightarrow> date" where
  "next_month_start d = (if month d = 12 then (year d + 1, 1, 1) else (year d, month d + 1, 1))"

fun consecutive_month_starts :: "date list \<Rightarrow> bool" where
  "consecutive_month_starts [] = True"
| "consecutive_month_starts [d] = is_month_start d"
| "consecutive_month_starts (d # d' # ds) =
     (is_month_start d \<and> d' = next_month_start d \<and> consecutive_month_starts (d' # ds))"

section \<open>Sections 7 and 8 of the notebook: the forecaster\<close>

text \<open>
  The exceptions a run can end with. \<open>ValueError\<close> is what the forecasting and metric
  libraries raise on unusable input, \<open>OSError\<close> what a failed directory creation or
  file write raises. \<open>FilterEmptyError\<close>, \<open>EvaluationOverlapError\<close> and \<open>RenderError\<close>
  are the error classes of the specification's taxonomy; no statement of the notebook
  raises them.
\<close>

datatype exception = ValueError | OSError | FilterEmptyError | EvaluationOverlapError | RenderError

text \<open>
  The forecaster is the Prophet library. Of a fitted model the notebook uses the
  training frame and the sorted, duplicate-free dates Prophet keeps of it.
  \<open>Prophet.fit\<close> refuses a frame with fewer than two rows
  (\<open>ValueError: Dataframe has less than 2 non-NaN rows\<close>).
\<close>

record 'a prophet =
  history :: "(date \<times> 'a) list"
  history_dates :: "date list"

definition fit :: "(date \<times> 'a) list \<Rightarrow> exception + 'a prophet" where
  "fit df =
     (if length df < 2 then Inl ValueError
      else Inr \<lparr>history = df, history_dates = sort (remdups (map fst df))\<rparr>)"

text \<open>
  \<open>pd.date_range(start, periods=n, freq='MS')\<close>: the first month-start on or after
  \<open>start\<close>, then one month-start per following month.
\<close>

definition rollforward_MS :: "date \<Rightarrow> date" where
  "rollforward_MS d = (if day d = 1 then d else shift_month (year d, month d, 1) 1)"

definition date_range_MS :: "date \<Rightarrow> nat \<Rightarrow> date list" where
  "date_range_MS start periods =
     map (\<lambda>k. shift_month (rollforward_MS start) (int k)) [0..<periods]"

text \<open>
  \<open>Prophet.make_future_dataframe(periods, freq='MS')\<close>: from the last history date a
  range of \<open>periods + 1\<close> dates is generated, the dates not after the last history date
  are dropped, the first \<open>periods\<close> of the rest are kept (\<open>future_dates\<close>) and appended
  to the history dates.
\<close>

definition future_dates :: "date \<Rightarrow> nat \<Rightarrow> date list" where
  "future_dates last_date periods =
     take periods (filter (\<lambda>d. last_date < d) (date_range_MS last_date (periods + 1)))"

definition make_future_dataframe :: "'a prophet \<Rightarrow> nat \<Rightarrow> exception + date list" where
  "make_future_dataframe m periods =
     (case max_ds (history_dates m) of
        None \<Rightarrow> Inl ValueError
      | Some last_date \<Rightarrow> Inr (history_dates m @ future_dates last_date periods))"

text \<open>
  \<open>Prophet.predict\<close> is a black box: the fitted model determines a point estimate for
  every date, and \<open>predict\<close> returns one row per row of the (date-sorted) frame it is
  given. The estimate is a parameter of the model of the notebook.
\<close>

type_synonym predictor = "(date \<times> real) list \<Rightarrow> date \<Rightarrow> real"

definition predict :: "predictor \<Rightarrow> real prophet \<Rightarrow> date list \<Rightarrow> exception + (date \<times> real) list" where
  "predict yhat m future =
     (if future = [] then Inl ValueError
      else Inr (map (\<lambda>d. (d, yhat (history m) d)) (sort future)))"

section \<open>Section 10 of the notebook: the evaluation\<close>

text \<open>
  \<open>test_df.merge(forecast[['ds','yhat']], on='ds', how='left')\<close>: every left row, in
  order, once per right row with the same date, and once with a missing \<open>yhat\<close>
  (\<open>None\<close>) when no right row has its date.
\<close>

definition merge_left :: "(date \<times> 'a) list \<Rightarrow> (date \<times> 'b) list \<Rightarrow> (date \<times> 'a \<times> 'b option) list" where
  "merge_left left right =
     concat (map (\<lambda>l. case filter (\<lambda>r. fst r = fst l) right of
                          [] \<Rightarrow> [(fst l, snd l, None)]
                        | matches \<Rightarrow> map (\<lambda>r. (fst l, snd l, Some (snd r))) matches) left)"

text \<open>
  \<open>.dropna(subset=['y','yhat'])\<close>. The \<open>y\<close> column comes from the aggregated sums and
  holds a value in every row, so only a missing \<open>yhat\<close> removes a row.
\<close>

definition dropna :: "(date \<times> 'a \<times> 'b option) list \<Rightarrow> (date \<times> 'a \<times> 'b) list" where
  "dropna rows =
     concat (map (\<lambda>r. case snd (snd r) of None \<Rightarrow> [] | Some v \<Rightarrow> [(fst r, fst (snd r), v)]) rows)"

definition eval_df :: "(date \<times> 'a) list \<Rightarrow> (date \<times> 'b) list \<Rightarrow> (date \<times> 'a \<times> 'b) list" where
  "eval_df test forecast = dropna (merge_left test forecast)"

text \<open>The inner join on the date, as the specification words it: one record for every
  pair of a holdout row and a forecast row with the same date.\<close>

definition inner_join :: "(date \<times> 'a) list \<Rightarrow> (date \<times> 'b) list \<Rightarrow> (date \<times> 'a \<times> 'b) list" where
  "inner_join left right =
     concat (map (\<lambda>l. map (\<lambda>r. (fst l, snd l, snd r)) (filter (\<lambda>r. fst r = fst l) right)) left)"

text \<open>
  \<open>sklearn.metrics.mean_absolute_error(y_true, y_pred)\<close>: the inputs must have the same
  length and at least one sample (otherwise \<open>ValueError\<close>); the result is the average
  of \<open>|y_pred - y_true|\<close>. Values are exact reals here; rounding is not modelled.
\<close>

definition mean_absolute_error :: "real list \<Rightarrow> real list \<Rightarrow> exception + real" where
  "mean_absolute_error y_true y_pred =
     (if length y_true \<noteq> length y_pred then Inl ValueError
      else if y_true = [] then Inl ValueError
      else Inr (sum_list (map2 (\<lambda>t p. \<bar>p - t\<bar>) y_true y_pred) / real (length y_true)))"

definition mae :: "(date \<times> real \<times> real) list \<Rightarrow> exception + real" where
  "mae ev = mean_absolute_error (map (\<lambda>r. fst (snd r)) ev) (map (\<lambda>r. snd (snd r)) ev)"

section \<open>The notebook as a whole\<close>

text \<open>
  The notebook is one sequence of statements, executed top to bottom; nothing in it
  catches an exception, so the first exception ends the run. A run yields what has been
  reported up to that point and the exception, if any. The outcome of the directory
  creation and of each file write is given by the environment.
\<close>

record env =
  makedirs :: "exception option"
  savefig :: "string \<Rightarrow> exception option"

datatype reported =
    Monthly_spend "(date \<times> real) list"
  | Saved string
  | Train_test "(date \<times> real) list" "(date \<times> real) list"
  | Forecasted "(date \<times> real) list"
  | MAE real
  | Actual_vs_forecast "(date \<times> real \<times> real) list"
  | Test_dates "date list"
  | Forecast_dates "date list"

definition monthly_spend_plot :: string where
  "monthly_spend_plot = ''../notebooks/assets/monthly_spend_plot.png''"

definition prophet_forecast_plot :: string where
  "prophet_forecast_plot = ''../notebooks/assets/prophet_forecast.png''"

definition prophet_components_plot :: string where
  "prophet_components_plot = ''../notebooks/assets/prophet_components.png''"

definition notebook ::
  "env \<Rightarrow> predictor \<Rightarrow> real transaction list \<Rightarrow> string \<Rightarrow> string \<Rightarrow> reported list \<times> exception option" where
  "notebook e yhat df city category =
     (let monthly = monthly_spend df city category;
          log4 = [Monthly_spend monthly]
      in case makedirs e of Some x \<Rightarrow> (log4, Some x) | None \<Rightarrow>
         case savefig e monthly_spend_plot of Some x \<Rightarrow> (log4, Some x) | None \<Rightarrow>
         let train = train_df monthly;
             test = test_df monthly;
             log6 = log4 @ [Saved monthly_spend_plot, Train_test train test]
         in case fit train of Inl x \<Rightarrow> (log6, Some x) | Inr m \<Rightarrow>
            case make_future_dataframe m 6 of Inl x \<Rightarrow> (log6, Some x) | Inr future \<Rightarrow>
            case predict yhat m future of Inl x \<Rightarrow> (log6, Some x) | Inr forecast \<Rightarrow>
            let future_only = filter (\<lambda>r. gt_NaT (fst r) (max_ds (map fst train))) forecast;
                log8 = log6 @ [Forecasted future_only]
            in case savefig e prophet_forecast_plot of Some x \<Rightarrow> (log8, Some x) | None \<Rightarrow>
               let ev = eval_df test forecast;
                   log9 = log8 @ [Saved prophet_forecast_plot]
               in case mae ev of Inl x \<Rightarrow> (log9, Some x) | Inr v \<Rightarrow>
                  let log10 = log9 @ [MAE v, Actual_vs_forecast ev]
                  in case savefig e prophet_components_plot of Some x \<Rightarrow> (log10, Some x) | None \<Rightarrow>
                     (log10 @ [Saved prophet_components_plot, Test_dates (map fst test),
                               Forecast_dates (map fst future_only)], None))"

section \<open>Example inputs\<close>

text \<open>A monthly series with a gap: January, July and August 2014.\<close>

definition ex3 :: "(date \<times> real) list" where
  "ex3 = [((2014, 1, 1), 10), ((2014, 7, 1), 20), ((2014, 8, 1), 30)]"

text \<open>Fourteen consecutive months, October 2013 to November 2014, with the linear trend
  100, 110, ..., 230.\<close>

definition ex14 :: "(date \<times> real) list" where
  "ex14 = [((2013, 10, 1), 100), ((2013, 11, 1), 110), ((2013, 12, 1), 120),
           ((2014, 1, 1), 130), ((2014, 2, 1), 140), ((2014, 3, 1), 150),
           ((2014, 4, 1), 160), ((2014, 5, 1), 170), ((2014, 6, 1), 180),
           ((2014, 7, 1), 190), ((2014, 8, 1), 200), ((2014, 9, 1), 210),
           ((2014, 10, 1), 220), ((2014, 11, 1), 230)]"

text \<open>Nine months of which the last six calendar months hold only three.\<close>

definition gap9 :: "(date \<times> real) list" where
  "gap9 = [((2013, 10, 1), 5), ((2013, 11, 1), 6), ((2013, 12, 1), 7),
           ((2014, 1, 1), 8), ((2014, 2, 1), 9), ((2014, 3, 1), 10),
           ((2014, 8, 1), 11), ((2014, 10, 1), 12), ((2014, 12, 1), 13)]"

text \<open>A two-row holdout and a two-row forecast table that share one date.\<close>

definition ex_test :: "(date \<times> real) list" where
  "ex_test = [((2014, 6, 1), 180), ((2014, 7, 1), 190)]"

definition ex_forecast :: "(date \<times> real) list" where
  "ex_forecast = [((2014, 5, 1), 171), ((2014, 6, 1), 182)]"

text \<open>Environments: every write succeeds; the forecast plot cannot be written; the
  components plot cannot be written. A predictor that estimates 300 for every date.
  Transaction frames: one without a Bengaluru/Food row, one whose Bengaluru/Food rows
  fall in January, February and August 2014, one whose rows fall in January and
  February 2013 and December 2014; for the last, the holdout and the forecast table.\<close>

definition ok_env :: env where
  "ok_env = \<lparr>makedirs = None, savefig = (\<lambda>path. None)\<rparr>"

definition forecast_plot_unwritable :: env where
  "forecast_plot_unwritable =
     \<lparr>makedirs = None,
      savefig = (\<lambda>path. if path = prophet_forecast_plot then Some OSError else None)\<rparr>"

definition components_plot_unwritable :: env where
  "components_plot_unwritable =
     \<lparr>makedirs = None,
      savefig = (\<lambda>path. if path = prophet_components_plot then Some OSError else None)\<rparr>"

definition flat_predictor :: predictor where
  "flat_predictor hist d = 300"

definition df_other :: "real transaction list" where
  "df_other = [\<lparr>Date = (2014, 3, 14), City = ''Delhi, India'', Exp_Type = ''Bills'', Amount = 82475\<rparr>]"

definition df_run :: "real transaction list" where
  "df_run =
     [\<lparr>Date = (2014, 1, 5), City = ''Bengaluru, India'', Exp_Type = ''Food'', Amount = 100\<rparr>,
      \<lparr>Date = (2014, 8, 21), City = ''Bengaluru, India'', Exp_Type = ''Food'', Amount = 250\<rparr>,
      \<lparr>Date = (2014, 2, 7), City = ''Bengaluru, India'', Exp_Type = ''Food'', Amount = 200\<rparr>,
      \<lparr>Date = (2014, 8, 9), City = ''Bengaluru, India'', Exp_Type = ''Food'', Amount = 60\<rparr>,
      \<lparr>Date = (2014, 8, 9), City = ''Delhi, India'', Exp_Type = ''Food'', Amount = 999\<rparr>]"

definition df_gap :: "real transaction list" where
  "df_gap =
     [\<lparr>Date = (2013, 1, 5), City = ''Bengaluru, India'', Exp_Type = ''Food'', Amount = 100\<rparr>,
      \<lparr>Date = (2013, 2, 7), City = ''Bengaluru, India'', Exp_Type = ''Food'', Amount = 200\<rparr>,
      \<lparr>Date = (2014, 12, 9), City = ''Bengaluru, India'', Exp_Type = ''Food'', Amount = 300\<rparr>]"

definition test_2014_12 :: "(date \<times> real) list" where
  "test_2014_12 = [((2014, 12, 1), 300)]"

definition forecast_2013 :: "(date \<times> real) list" where
  "forecast_2013 =
     [((2013, 1, 1), 300), ((2013, 2, 1), 300), ((2013, 3, 1), 300), ((2013, 4, 1), 300),
      ((2013, 5, 1), 300), ((2013, 6, 1), 300), ((2013, 7, 1), 300), ((2013, 8, 1), 300)]"

section \<open>Auxiliary notions for the proofs\<close>

text \<open>Months counted from year 0, and the month-start with a given count.\<close>

definition month_index :: "date \<Rightarrow> int" where
  "month_index d = 12 * year d + (month d - 1)"

definition month_start_of :: "int \<Rightarrow> date" where
  "month_start_of i = (i div 12, i mod 12 + 1, 1)"

section \<open>Properties of the aggregation\<close>

lemma sum_groups:
  fixes rows :: "('k \<times> 'a::comm_monoid_add) list"
  assumes "finite K" and "fst ` set rows \<subseteq> K"
  shows "(\<Sum>k\<in>K. sum_list (map snd (filter (\<lambda>r. fst r = k) rows))) = sum_list (map snd rows)"
  using assms(2)
proof (induction rows)
  case Nil
  then show ?case by simp
next
  case (Cons r rows)
  let ?g = "\<lambda>k. sum_list (map snd (filter (\<lambda>r. fst r = k) rows))"
  have in_K: "fst r \<in> K" and sub: "fst ` set rows \<subseteq> K"
    using Cons.prems by auto
  have "(\<Sum>k\<in>K. sum_list (map snd (filter (\<lambda>x. fst x = k) (r # rows))))
        = (\<Sum>k\<in>K. (if fst r = k then snd r else 0) + ?g k)"
    by (rule sum.cong) auto
  also have "\<dots> = (\<Sum>k\<in>K. if fst r = k then snd r else 0) + (\<Sum>k\<in>K. ?g k)"
    by (simp add: sum.distrib)
  also have "(\<Sum>k\<in>K. if fst r = k then snd r else 0) = snd r"
    using assms(1) in_K by (simp add: sum.delta')
  also have "(\<Sum>k\<in>K. ?g k) = sum_list (map snd rows)"
    using Cons.IH sub by simp
  finally show ?case by simp
qed

lemma groupby_sum_total:
  fixes rows :: "(date \<times> 'a::comm_monoid_add) list"
  shows "sum_list (map snd (groupby_sum rows)) = sum_list (map snd rows)"
proof -
  let ?g = "\<lambda>k. sum_list (map snd (filter (\<lambda>r. fst r = k) rows))"
  let ?keys = "sort (remdups (map fst rows))"
  have "sum_list (map snd (groupby_sum rows)) = sum_list (map ?g ?keys)"
    by (simp add: groupby_sum_def comp_def)
  also have "\<dots> = (\<Sum>k\<in>set ?keys. ?g k)"
    by (rule sum_list_distinct_conv_sum_set) simp
  also have "\<dots> = sum_list (map snd rows)"
    by (rule sum_groups) auto
  finally show ?thesis .
qed

lemma groupby_sum_keys: "map fst (groupby_sum rows) = sort (remdups (map fst rows))"
  by (simp add: groupby_sum_def comp_def)

lemma strict_sorted_keys: "sorted_wrt (<) (sort (remdups (xs :: date list)))"
  by (simp add: strict_sorted_iff)

text \<open>
  C2. For every transaction set and every (city, category) filter, the amounts of the
  monthly series add up to the sum of the amounts of exactly the transactions whose
  city and category both equal the filter strings: nothing is dropped, nothing is
  counted twice.
\<close>

theorem monthly_spend_preserves_total:
  fixes df :: "('a::comm_monoid_add) transaction list"
  shows "sum_list (map snd (monthly_spend df city category))
         = sum_list (map Amount (filter (\<lambda>t. City t = city \<and> Exp_Type t = category) df))"
proof -
  have "sum_list (map snd (monthly_spend df city category))
        = sum_list (map snd (df_city_cat df city category))"
    unfolding monthly_spend_def by (rule groupby_sum_total)
  also have "\<dots> = sum_list (map Amount (filter (mask_df city category) df))"
    by (simp add: df_city_cat_def comp_def)
  also have "filter (mask_df city category) df
             = filter (\<lambda>t. City t = city \<and> Exp_Type t = category) df"
    by (rule filter_cong) (simp_all add: mask_df_def)
  finally show ?thesis .
qed

text \<open>
  C3. For every transaction set and filter, the dates of the monthly series are strictly
  increasing (hence sorted ascending and free of duplicates), and they are exactly the
  first days of the calendar months that contain a matching transaction.
\<close>

theorem monthly_spend_dates:
  "sorted_wrt (<) (map fst (monthly_spend df city category))
   \<and> distinct (map fst (monthly_spend df city category))
   \<and> sorted (map fst (monthly_spend df city category))
   \<and> set (map fst (monthly_spend df city category))
       = (\<lambda>t. (year (Date t), month (Date t), 1)) ` {t \<in> set df. City t = city \<and> Exp_Type t = category}"
proof -
  let ?ds = "map fst (monthly_spend df city category)"
  have keys: "?ds = sort (remdups (map fst (df_city_cat df city category)))"
    by (simp add: monthly_spend_def groupby_sum_keys)
  have strict: "sorted_wrt (<) ?ds"
    unfolding keys by (rule strict_sorted_keys)
  have "set ?ds = fst ` set (df_city_cat df city category)"
    unfolding keys by simp
  also have "\<dots> = YearMonth ` {t \<in> set df. mask_df city category t}"
    by (auto simp: df_city_cat_def image_iff)
  also have "\<dots> = (\<lambda>t. (year (Date t), month (Date t), 1)) ` {t \<in> set df. City t = city \<and> Exp_Type t = category}"
    by (simp add: YearMonth_def to_period_M_to_timestamp_def mask_df_def)
  finally have dates: "set ?ds = (\<lambda>t. (year (Date t), month (Date t), 1)) ` {t \<in> set df. City t = city \<and> Exp_Type t = category}" .
  from strict have "distinct ?ds" and "sorted ?ds"
    by (simp_all add: strict_sorted_iff)
  with strict dates show ?thesis by simp
qed

section \<open>Properties of the split\<close>

lemma max_ds_Max:
  assumes "ds \<noteq> []"
  shows "max_ds ds = Some (Max (set ds))"
proof (cases ds)
  case Nil
  with assms show ?thesis by simp
next
  case (Cons d rest)
  have "fold max rest d = Max (set (d # rest))"
    by (rule Max.set_eq_fold [symmetric])
  with Cons show ?thesis by (simp add: max_ds_def)
qed

lemma train_cutoff_Some:
  "s \<noteq> [] \<Longrightarrow> train_cutoff s = Some (sub_DateOffset_months (Max (set (map fst s))) 6)"
  by (simp add: train_cutoff_def max_ds_Max)

lemma train_cutoff_Nil: "train_cutoff [] = None"
  by (simp add: train_cutoff_def max_ds_def)

lemma train_df_Some: "train_cutoff s = Some c \<Longrightarrow> train_df s = filter (\<lambda>r. fst r \<le> c) s"
  by (simp add: train_df_def le_NaT_def)

lemma test_df_Some: "train_cutoff s = Some c \<Longrightarrow> test_df s = filter (\<lambda>r. c < fst r) s"
  by (simp add: test_df_def gt_NaT_def)

lemma ex3_cutoff: "train_cutoff ex3 = Some (2014, 2, 1)"
  by (simp add: ex3_def train_cutoff_def max_ds_def sub_DateOffset_months_def shift_month_def
      year_def month_def day_def days_in_month_def is_leap_year_def Let_def)

lemma ex3_train: "train_df ex3 = [((2014, 1, 1), 10)]"
  by (simp add: train_df_def ex3_cutoff le_NaT_def) (simp add: ex3_def)

lemma ex3_test: "test_df ex3 = [((2014, 7, 1), 20), ((2014, 8, 1), 30)]"
  by (simp add: test_df_def ex3_cutoff gt_NaT_def) (simp add: ex3_def)

text \<open>
  C1. For every monthly series the two parts of the split together have as many rows as
  the series and share no row. When the series is not empty the cutoff is its maximum
  date minus six months; the training part is exactly the rows dated at or before the
  cutoff, the holdout exactly the remaining rows, so every training date is at most the
  cutoff and every holdout date lies strictly after it. (On the empty series the
  cutoff is missing and both parts are empty.)
\<close>

theorem split_partition:
  "length (train_df s) + length (test_df s) = length s
   \<and> set (train_df s) \<inter> set (test_df s) = {}
   \<and> (s \<noteq> [] \<longrightarrow> train_cutoff s = Some (sub_DateOffset_months (Max (set (map fst s))) 6))
   \<and> (\<forall>c. train_cutoff s = Some c \<longrightarrow>
         train_df s = filter (\<lambda>r. fst r \<le> c) s
         \<and> test_df s = filter (\<lambda>r. \<not> fst r \<le> c) s
         \<and> (\<forall>r\<in>set (train_df s). fst r \<le> c)
         \<and> (\<forall>r\<in>set (test_df s). c < fst r))"
proof (cases "s = []")
  case True
  then show ?thesis
    by (simp add: train_df_def test_df_def train_cutoff_Nil)
next
  case False
  define c where "c = sub_DateOffset_months (Max (set (map fst s))) 6"
  have cut: "train_cutoff s = Some c"
    using False by (simp add: c_def train_cutoff_Some)
  have tr: "train_df s = filter (\<lambda>r. fst r \<le> c) s"
    by (rule train_df_Some [OF cut])
  have te: "test_df s = filter (\<lambda>r. \<not> fst r \<le> c) s"
    by (simp add: test_df_Some [OF cut] not_le)
  have len: "length (train_df s) + length (test_df s) = length s"
    unfolding tr te by (rule sum_length_filter_compl)
  have disj: "set (train_df s) \<inter> set (test_df s) = {}"
    unfolding tr te by auto
  have lo: "\<forall>r\<in>set (train_df s). fst r \<le> c"
    unfolding tr by simp
  have hi: "\<forall>r\<in>set (test_df s). c < fst r"
    unfolding te by (simp add: not_le)
  from cut tr te len disj lo hi show ?thesis
    by (simp add: c_def)
qed

theorem split_partition_witness:
  "train_cutoff ex3 = Some (2014, 2, 1)
   \<and> train_df ex3 = [((2014, 1, 1), 10)]
   \<and> test_df ex3 = [((2014, 7, 1), 20), ((2014, 8, 1), 30)]
   \<and> length (train_df ex3) + length (test_df ex3) = length ex3
   \<and> set (train_df ex3) \<inter> set (test_df ex3) = {}
   \<and> list_all (\<lambda>r. fst r \<le> (2014, 2, 1)) (train_df ex3)
   \<and> list_all (\<lambda>r. (2014, 2, 1) < fst r) (test_df ex3)"
proof -
  have cut: "train_cutoff ex3 = Some (2014, 2, 1)"
    by (rule ex3_cutoff)
  from split_partition [of ex3] cut
  have "length (train_df ex3) + length (test_df ex3) = length ex3"
    and "set (train_df ex3) \<inter> set (test_df ex3) = {}"
    and "\<forall>r\<in>set (train_df ex3). fst r \<le> (2014, 2, 1)"
    and "\<forall>r\<in>set (test_df ex3). (2014, 2, 1) < fst r"
    by blast+
  with cut ex3_train ex3_test show ?thesis
    unfolding list_all_iff by blast
qed

subsection \<open>Month arithmetic\<close>

lemma min_days_in_month: "min 1 (days_in_month y m) = 1"
  by (simp add: days_in_month_def)

lemma shift_month_day_1:
  assumes "day d = 1"
  shows "is_month_start (shift_month d n)"
    and "month_index (shift_month d n) = month_index d + n"
proof -
  obtain y m x where d: "d = (y, m, x)" by (cases d) auto
  have x: "x = 1" using assms by (simp add: d day_def)
  define q where "q = (m + n) div 12"
  define r where "r = (m + n) mod 12"
  have split: "m + n = 12 * q + r"
    by (simp add: q_def r_def)
  have r: "0 \<le> r" "r < 12"
    by (simp_all add: r_def)
  define yr where "yr = y + (if r = 0 then q - 1 else q)"
  define mo where "mo = (if r = 0 then 12 else r)"
  have sm: "shift_month d n = (yr, mo, 1)"
    by (simp add: shift_month_def d x Let_def year_def month_def day_def q_def r_def yr_def mo_def
        min_days_in_month)
  show "is_month_start (shift_month d n)"
    unfolding sm using r by (simp add: is_month_start_def year_def month_def day_def mo_def)
  show "month_index (shift_month d n) = month_index d + n"
    unfolding sm using split r by (simp add: d month_index_def year_def month_def yr_def mo_def)
qed

lemma shift_month_start:
  assumes "is_month_start d"
  shows "is_month_start (shift_month d n)"
    and "month_index (shift_month d n) = month_index d + n"
  using assms shift_month_day_1 [of d n] by (simp_all add: is_month_start_def)

lemma month_start_le_iff:
  assumes "is_month_start d" and "is_month_start d'"
  shows "d \<le> d' \<longleftrightarrow> month_index d \<le> month_index d'"
proof -
  obtain y m x where d: "d = (y, m, x)" by (cases d) auto
  obtain y' m' x' where d': "d' = (y', m', x')" by (cases d') auto
  from assms show ?thesis
    unfolding d d' is_month_start_def month_index_def year_def month_def day_def
    by simp arith
qed

lemma month_start_eq_iff:
  assumes "is_month_start d" and "is_month_start d'"
  shows "d = d' \<longleftrightarrow> month_index d = month_index d'"
  using month_start_le_iff [OF assms] month_start_le_iff [OF assms(2) assms(1)]
  by (auto simp: order_eq_iff)

lemma month_start_less_iff:
  assumes "is_month_start d" and "is_month_start d'"
  shows "d < d' \<longleftrightarrow> month_index d < month_index d'"
  using month_start_le_iff [OF assms(2) assms(1)] by (simp add: not_le [symmetric])

lemma test_df_at_most_6:
  fixes s :: "(date \<times> 'a) list"
  assumes dist: "distinct (map fst s)"
    and ms: "\<forall>d\<in>set (map fst s). is_month_start d"
  shows "length (test_df s) \<le> 6"
proof (cases "s = []")
  case True
  then show ?thesis by (simp add: test_df_def)
next
  case False
  define mx where "mx = Max (set (map fst s))"
  define c where "c = sub_DateOffset_months mx 6"
  have mx_in: "mx \<in> set (map fst s)"
    unfolding mx_def using False by (intro Max_in) auto
  have mx_ms: "is_month_start mx" using ms mx_in by blast
  have c_ms: "is_month_start c" and c_idx: "month_index c = month_index mx - 6"
    using shift_month_start [OF mx_ms, of "- 6"] by (simp_all add: c_def sub_DateOffset_months_def)
  have cut: "train_cutoff s = Some c"
    using False by (simp add: c_def mx_def train_cutoff_Some)
  let ?T = "map fst (test_df s)"
  have T: "?T = filter (\<lambda>d. c < d) (map fst s)"
    by (simp add: test_df_Some [OF cut] filter_map comp_def)
  have distT: "distinct ?T" unfolding T using dist by simp
  have sub: "month_index ` set ?T \<subseteq> {month_index mx - 5 .. month_index mx}"
  proof
    fix i assume "i \<in> month_index ` set ?T"
    then obtain d where d: "d \<in> set (map fst s)" "c < d" and i: "i = month_index d"
      unfolding T by auto
    have d_ms: "is_month_start d" using ms d(1) by blast
    have "d \<le> mx" unfolding mx_def using d(1) by (intro Max_ge) auto
    then have "month_index d \<le> month_index mx"
      using month_start_le_iff [OF d_ms mx_ms] by simp
    moreover have "month_index c < month_index d"
      using month_start_less_iff [OF c_ms d_ms] d(2) by simp
    ultimately show "i \<in> {month_index mx - 5 .. month_index mx}"
      using c_idx i by simp
  qed
  have inj: "inj_on month_index (set ?T)"
  proof (rule inj_onI)
    fix a b assume a: "a \<in> set ?T" and b: "b \<in> set ?T" and eq: "month_index a = month_index b"
    have "is_month_start a" "is_month_start b"
      using a b ms unfolding T by auto
    then show "a = b" using month_start_eq_iff eq by blast
  qed
  have "length (test_df s) = length ?T" by simp
  also have "\<dots> = card (set ?T)"
    by (rule distinct_card [OF distT, symmetric])
  also have "\<dots> = card (month_index ` set ?T)"
    using inj by (simp add: card_image)
  also have "\<dots> \<le> card {month_index mx - 5 .. month_index mx}"
    by (rule card_mono [OF _ sub]) simp
  also have "\<dots> = 6" by simp
  finally show ?thesis .
qed

lemma is_month_start_of [simp]: "is_month_start (month_start_of i)"
proof -
  have "0 \<le> i mod 12" "i mod 12 < 12" by simp_all
  then show ?thesis
    by (simp add: is_month_start_def month_start_of_def month_def day_def)
qed

lemma month_index_of [simp]: "month_index (month_start_of i) = i"
  by (simp add: month_index_def month_start_of_def year_def month_def)

lemma month_start_of_index: "is_month_start d \<Longrightarrow> month_start_of (month_index d) = d"
  using month_start_eq_iff [of "month_start_of (month_index d)" d] by simp

lemma month_start_of_le [simp]: "month_start_of i \<le> month_start_of j \<longleftrightarrow> i \<le> j"
  using month_start_le_iff [of "month_start_of i" "month_start_of j"] by simp

lemma month_start_of_less [simp]: "month_start_of i < month_start_of j \<longleftrightarrow> i < j"
  using month_start_less_iff [of "month_start_of i" "month_start_of j"] by simp

lemma month_start_of_eq [simp]: "month_start_of i = month_start_of j \<longleftrightarrow> i = j"
  using month_start_eq_iff [of "month_start_of i" "month_start_of j"] by simp

lemma shift_month_of [simp]: "shift_month (month_start_of i) n = month_start_of (i + n)"
proof -
  have "is_month_start (shift_month (month_start_of i) n)"
    and "month_index (shift_month (month_start_of i) n) = i + n"
    using shift_month_start [of "month_start_of i" n] by simp_all
  then show ?thesis
    using month_start_of_index by fastforce
qed

lemma next_month_start_index:
  assumes "is_month_start d"
  shows "is_month_start (next_month_start d)"
    and "month_index (next_month_start d) = month_index d + 1"
  using assms
  by (auto simp add: is_month_start_def next_month_start_def month_index_def
      year_def month_def day_def)

lemma next_month_start_of [simp]: "next_month_start (month_start_of i) = month_start_of (i + 1)"
proof -
  have "is_month_start (next_month_start (month_start_of i))"
    and "month_index (next_month_start (month_start_of i)) = i + 1"
    using next_month_start_index [of "month_start_of i"] by simp_all
  then show ?thesis
    using month_start_of_index by fastforce
qed

lemma day_month_start_of [simp]: "day (month_start_of i) = 1"
  by (simp add: month_start_of_def day_def)

lemma consecutive_nth:
  "consecutive_month_starts (d # ds) \<Longrightarrow> k < length (d # ds) \<Longrightarrow>
     (d # ds) ! k = month_start_of (month_index d + int k)"
proof (induction ds arbitrary: d k)
  case Nil
  then show ?case by (simp add: month_start_of_index)
next
  case (Cons d' ds)
  from Cons.prems(1) have d: "is_month_start d" and d': "d' = next_month_start d"
    and rest: "consecutive_month_starts (d' # ds)"
    by auto
  have d'_eq: "d' = month_start_of (month_index d + 1)"
    using d d' next_month_start_of [of "month_index d"] by (simp add: month_start_of_index)
  show ?case
  proof (cases k)
    case 0
    then show ?thesis using d by (simp add: month_start_of_index)
  next
    case (Suc j)
    then have "j < length (d' # ds)" using Cons.prems(2) by simp
    from Cons.IH [OF rest this] have "(d' # ds) ! j = month_start_of (month_index d' + int j)" .
    then show ?thesis
      using Suc d'_eq by (simp add: add.assoc)
  qed
qed

lemma upt_14: "[0..<14] = [0, 1, 2, 3, 4, 5, 6, 7, 8, 9, 10, 11, 12, 13 :: nat]"
  by (simp add: upt_rec)

lemma consecutive_14:
  assumes "consecutive_month_starts D" and "length D = 14"
  obtains i where "D = map (\<lambda>k. month_start_of (i + int k)) [0..<14]"
proof -
  from assms(2) obtain d ds where D: "D = d # ds" by (cases D) auto
  have "D = map (\<lambda>k. month_start_of (month_index d + int k)) [0..<14]"
  proof (rule nth_equalityI)
    show "length D = length (map (\<lambda>k. month_start_of (month_index d + int k)) [0..<14])"
      using assms(2) by simp
  next
    fix k assume "k < length D"
    then show "D ! k = map (\<lambda>k. month_start_of (month_index d + int k)) [0..<14] ! k"
      using consecutive_nth [of d ds k] assms D by simp
  qed
  then show ?thesis by (rule that)
qed

lemma map_fst_train_df:
  "train_cutoff s = Some c \<Longrightarrow> map fst (train_df s) = filter (\<lambda>d. d \<le> c) (map fst s)"
  by (simp add: train_df_Some filter_map comp_def)

lemma map_fst_test_df:
  "train_cutoff s = Some c \<Longrightarrow> map fst (test_df s) = filter (\<lambda>d. c < d) (map fst s)"
  by (simp add: test_df_Some filter_map comp_def)

text \<open>
  C5. For every monthly series of exactly 14 points whose dates are consecutive
  month-starts, the split yields 8 training and 6 holdout points; the forecaster fits,
  and the 6 horizon dates it generates at month-start frequency are the consecutive
  month-starts immediately following the last training date (they are the holdout
  dates).
\<close>

theorem fourteen_months_split:
  fixes s :: "(date \<times> 'a) list"
  assumes "length s = 14" and "consecutive_month_starts (map fst s)"
  shows "length (train_df s) = 8 \<and> length (test_df s) = 6
    \<and> (\<exists>m last_date.
          fit (train_df s) = Inr m
        \<and> last_date = fst (last (train_df s))
        \<and> max_ds (history_dates m) = Some last_date
        \<and> make_future_dataframe m 6 = Inr (map fst (train_df s) @ future_dates last_date 6)
        \<and> length (future_dates last_date 6) = 6
        \<and> consecutive_month_starts (last_date # future_dates last_date 6)
        \<and> future_dates last_date 6 = map fst (test_df s))"
proof -
  have "length (map fst s) = 14"
    using assms(1) by simp
  from consecutive_14 [OF assms(2) this]
  obtain i where "map fst s = map (\<lambda>k. month_start_of (i + int k)) [0..<14]" .
  then have D: "map fst s =
      [month_start_of i, month_start_of (i + 1), month_start_of (i + 2), month_start_of (i + 3),
       month_start_of (i + 4), month_start_of (i + 5), month_start_of (i + 6), month_start_of (i + 7),
       month_start_of (i + 8), month_start_of (i + 9), month_start_of (i + 10), month_start_of (i + 11),
       month_start_of (i + 12), month_start_of (i + 13)]"
    by (simp add: upt_14)
  have cut: "train_cutoff s = Some (month_start_of (i + 7))"
    by (simp add: train_cutoff_def D max_ds_def max_def sub_DateOffset_months_def)
  have tr: "map fst (train_df s) =
      [month_start_of i, month_start_of (i + 1), month_start_of (i + 2), month_start_of (i + 3),
       month_start_of (i + 4), month_start_of (i + 5), month_start_of (i + 6), month_start_of (i + 7)]"
    by (simp add: map_fst_train_df [OF cut] D)
  have te: "map fst (test_df s) =
      [month_start_of (i + 8), month_start_of (i + 9), month_start_of (i + 10),
       month_start_of (i + 11), month_start_of (i + 12), month_start_of (i + 13)]"
    by (simp add: map_fst_test_df [OF cut] D)
  have len_tr: "length (train_df s) = 8"
    using arg_cong [OF tr, of length] by simp
  have len_te: "length (test_df s) = 6"
    using arg_cong [OF te, of length] by simp
  have ne: "train_df s \<noteq> []"
    using len_tr by auto
  have last_tr: "fst (last (train_df s)) = month_start_of (i + 7)"
    using last_map [OF ne, of fst] by (simp add: tr)
  define m where "m = \<lparr>history = train_df s, history_dates = sort (remdups (map fst (train_df s)))\<rparr>"
  have fit_m: "fit (train_df s) = Inr m"
    by (simp add: fit_def len_tr m_def)
  have hd: "history_dates m = map fst (train_df s)"
    by (simp add: m_def tr)
  have mx: "max_ds (history_dates m) = Some (month_start_of (i + 7))"
    by (simp add: hd tr max_ds_def max_def)
  have fut: "future_dates (month_start_of (i + 7)) 6 =
      [month_start_of (i + 8), month_start_of (i + 9), month_start_of (i + 10),
       month_start_of (i + 11), month_start_of (i + 12), month_start_of (i + 13)]"
    by (simp add: future_dates_def date_range_MS_def rollforward_MS_def upt_rec)
  have mk: "make_future_dataframe m 6 = Inr (map fst (train_df s) @ future_dates (month_start_of (i + 7)) 6)"
    unfolding make_future_dataframe_def mx by (simp add: hd)
  have cons: "consecutive_month_starts (month_start_of (i + 7) # future_dates (month_start_of (i + 7)) 6)"
    by (simp add: fut)
  show ?thesis
    using len_tr len_te fit_m last_tr mx mk cons fut te by simp
qed

lemmas date_simps = year_def month_def day_def is_month_start_def next_month_start_def
  shift_month_def sub_DateOffset_months_def days_in_month_def is_leap_year_def Let_def

lemma ex14_length: "length ex14 = 14"
  by (simp add: ex14_def)

lemma ex14_consecutive: "consecutive_month_starts (map fst ex14)"
  by (simp add: ex14_def date_simps)

lemma ex14_cutoff: "train_cutoff ex14 = Some (2014, 5, 1)"
  by (simp add: ex14_def train_cutoff_def max_ds_def date_simps)

lemma ex14_train:
  "train_df ex14 = [((2013, 10, 1), 100), ((2013, 11, 1), 110), ((2013, 12, 1), 120),
           ((2014, 1, 1), 130), ((2014, 2, 1), 140), ((2014, 3, 1), 150),
           ((2014, 4, 1), 160), ((2014, 5, 1), 170)]"
  by (simp add: train_df_Some [OF ex14_cutoff]) (simp add: ex14_def)

lemma ex14_test:
  "test_df ex14 = [((2014, 6, 1), 180),
           ((2014, 7, 1), 190), ((2014, 8, 1), 200), ((2014, 9, 1), 210),
           ((2014, 10, 1), 220), ((2014, 11, 1), 230)]"
  by (simp add: test_df_Some [OF ex14_cutoff]) (simp add: ex14_def)

lemma ex14_month_starts: "distinct (map fst ex14) \<and> (\<forall>d\<in>set (map fst ex14). is_month_start d)"
  by (simp add: ex14_def date_simps)

lemma gap9_cutoff: "train_cutoff gap9 = Some (2014, 6, 1)"
  by (simp add: gap9_def train_cutoff_def max_ds_def date_simps)

lemma gap9_test: "test_df gap9 = [((2014, 8, 1), 11), ((2014, 10, 1), 12), ((2014, 12, 1), 13)]"
  by (simp add: test_df_Some [OF gap9_cutoff]) (simp add: gap9_def)

lemma gap9_month_starts:
  "distinct (map fst gap9) \<and> (\<forall>d\<in>set (map fst gap9). is_month_start d) \<and> length gap9 = 9"
  by (simp add: gap9_def date_simps)

theorem fourteen_months_split_witness:
  "length ex14 = 14 \<and> consecutive_month_starts (map fst ex14)
   \<and> length (train_df ex14) = 8 \<and> length (test_df ex14) = 6
   \<and> fst (last (train_df ex14)) = (2014, 5, 1)
   \<and> future_dates (2014, 5, 1) 6 =
       [(2014, 6, 1), (2014, 7, 1), (2014, 8, 1), (2014, 9, 1), (2014, 10, 1), (2014, 11, 1)]
   \<and> consecutive_month_starts ((2014, 5, 1) # future_dates (2014, 5, 1) 6)"
proof -
  have last: "fst (last (train_df ex14)) = (2014, 5, 1)"
    by (simp add: ex14_train)
  from fourteen_months_split [OF ex14_length ex14_consecutive]
  have tr: "length (train_df ex14) = 8" and te: "length (test_df ex14) = 6"
    and fut: "future_dates (fst (last (train_df ex14))) 6 = map fst (test_df ex14)"
    and cons: "consecutive_month_starts
           (fst (last (train_df ex14)) # future_dates (fst (last (train_df ex14))) 6)"
    by auto
  have fut': "future_dates (2014, 5, 1) 6 =
       [(2014, 6, 1), (2014, 7, 1), (2014, 8, 1), (2014, 9, 1), (2014, 10, 1), (2014, 11, 1)]"
    using fut unfolding last by (simp add: ex14_test)
  have cons': "consecutive_month_starts ((2014, 5, 1) # future_dates (2014, 5, 1) 6)"
    using cons unfolding last .
  from ex14_length ex14_consecutive tr te last fut' cons' show ?thesis
    by (intro conjI)
qed

text \<open>
  C10. For every monthly series whose dates are distinct month-starts the holdout has at
  most 6 points. It can have fewer, also when the series is longer than 6 points: the
  nine-point series \<open>gap9\<close>, in which months are absent, has a holdout of 3.
\<close>

theorem holdout_at_most_six:
  "(distinct (map fst s) \<and> (\<forall>d\<in>set (map fst s). is_month_start d) \<longrightarrow> length (test_df s) \<le> 6)
   \<and> distinct (map fst gap9) \<and> (\<forall>d\<in>set (map fst gap9). is_month_start d)
   \<and> length gap9 = 9 \<and> length (test_df gap9) = 3"
proof -
  have "distinct (map fst s) \<and> (\<forall>d\<in>set (map fst s). is_month_start d) \<longrightarrow> length (test_df s) \<le> 6"
    using test_df_at_most_6 [of s] by blast
  moreover have "length (test_df gap9) = 3"
    by (simp add: gap9_test)
  ultimately show ?thesis
    using gap9_month_starts by blast
qed

theorem holdout_at_most_six_witness:
  "distinct (map fst ex14) \<and> list_all is_month_start (map fst ex14)
   \<and> length (test_df ex14) \<le> 6"
  using holdout_at_most_six [of ex14] ex14_month_starts unfolding list_all_iff by blast

section \<open>Properties of the evaluation\<close>

lemma dropna_append: "dropna (xs @ ys) = dropna xs @ dropna ys"
  by (simp add: dropna_def)

lemma dropna_Some: "dropna (map (\<lambda>r. (a, b, Some (g r))) ms) = map (\<lambda>r. (a, b, g r)) ms"
  by (induction ms) (simp_all add: dropna_def)

lemma dropna_None: "dropna [(a, b, None)] = []"
  by (simp add: dropna_def)

lemma merge_left_Cons:
  "merge_left (l # left) right =
     (case filter (\<lambda>r. fst r = fst l) right of
        [] \<Rightarrow> [(fst l, snd l, None)]
      | matches \<Rightarrow> map (\<lambda>r. (fst l, snd l, Some (snd r))) matches) @ merge_left left right"
  by (simp add: merge_left_def)

lemma inner_join_Cons:
  "inner_join (l # left) right =
     map (\<lambda>r. (fst l, snd l, snd r)) (filter (\<lambda>r. fst r = fst l) right) @ inner_join left right"
  by (simp add: inner_join_def)

lemma eval_df_inner_join: "eval_df test forecast = inner_join test forecast"
proof (induction test)
  case Nil
  show ?case by (simp add: eval_df_def merge_left_def dropna_def inner_join_def)
next
  case (Cons l test)
  have "dropna (case filter (\<lambda>r. fst r = fst l) forecast of
                  [] \<Rightarrow> [(fst l, snd l, None)]
                | matches \<Rightarrow> map (\<lambda>r. (fst l, snd l, Some (snd r))) matches)
        = map (\<lambda>r. (fst l, snd l, snd r)) (filter (\<lambda>r. fst r = fst l) forecast)"
  proof (cases "filter (\<lambda>r. fst r = fst l) forecast")
    case Nil
    then show ?thesis by (simp add: dropna_None)
  next
    case (Cons r rs)
    then show ?thesis using dropna_Some [of "fst l" "snd l" snd "r # rs"] by simp
  qed
  with Cons.IH show ?case
    by (simp add: eval_df_def merge_left_Cons dropna_append inner_join_Cons)
qed

lemma set_inner_join:
  "set (inner_join left right) = {(d, y, yh). (d, y) \<in> set left \<and> (d, yh) \<in> set right}"
  by (force simp: inner_join_def)

lemma dates_inner_join:
  "fst ` set (inner_join left right) = fst ` set left \<inter> fst ` set right"
  unfolding set_inner_join by force

lemma length_filter_key_le_1:
  "distinct (map f xs) \<Longrightarrow> length (filter (\<lambda>r. f r = k) xs) \<le> 1"
  by (induction xs) (auto simp: image_iff filter_empty_conv)

lemma length_inner_join_le_left:
  "distinct (map fst right) \<Longrightarrow> length (inner_join left right) \<le> length left"
proof (induction left)
  case Nil
  show ?case by (simp add: inner_join_def)
next
  case (Cons l left)
  have "length (filter (\<lambda>r. fst r = fst l) right) \<le> 1"
    using Cons.prems by (rule length_filter_key_le_1)
  with Cons show ?case by (simp add: inner_join_Cons)
qed

lemma length_filter_disjoint:
  "(\<And>x. \<not> (P x \<and> Q x)) \<Longrightarrow>
     length (filter P xs) + length (filter Q xs) = length (filter (\<lambda>x. P x \<or> Q x) xs)"
  by (induction xs) auto

lemma length_inner_join_le_filter:
  "distinct (map fst left) \<Longrightarrow>
     length (inner_join left right) \<le> length (filter (\<lambda>r. fst r \<in> fst ` set left) right)"
proof (induction left)
  case Nil
  show ?case by (simp add: inner_join_def)
next
  case (Cons l left)
  have notin: "fst l \<notin> fst ` set left" and dist: "distinct (map fst left)"
    using Cons.prems by simp_all
  have "length (inner_join (l # left) right)
        = length (filter (\<lambda>r. fst r = fst l) right) + length (inner_join left right)"
    by (simp add: inner_join_Cons)
  also have "\<dots> \<le> length (filter (\<lambda>r. fst r = fst l) right)
                  + length (filter (\<lambda>r. fst r \<in> fst ` set left) right)"
    using Cons.IH [OF dist] by simp
  also have "\<dots> = length (filter (\<lambda>r. fst r = fst l \<or> fst r \<in> fst ` set left) right)"
    using notin by (intro length_filter_disjoint) auto
  also have "\<dots> = length (filter (\<lambda>r. fst r \<in> fst ` set (l # left)) right)"
    by (rule arg_cong [where f = length], rule filter_cong) auto
  finally show ?case .
qed

lemma length_inner_join_le_right:
  "distinct (map fst left) \<Longrightarrow> length (inner_join left right) \<le> length right"
  using length_inner_join_le_filter [of left right] length_filter_le [of _ right]
  by (meson order_trans)

subsection \<open>The tables of a run have one row per date\<close>

lemma day_rollforward_MS: "day (rollforward_MS d) = 1"
proof (cases "day d = 1")
  case True
  then show ?thesis by (simp add: rollforward_MS_def)
next
  case False
  have "is_month_start (shift_month (year d, month d, 1) 1)"
    by (rule shift_month_day_1) (simp add: day_def)
  with False show ?thesis by (simp add: rollforward_MS_def is_month_start_def)
qed

lemma distinct_date_range_MS: "distinct (date_range_MS start periods)"
proof -
  let ?r = "rollforward_MS start"
  have "inj_on (\<lambda>k. shift_month ?r (int k)) (set [0..<periods])"
  proof (rule inj_onI)
    fix a b assume "shift_month ?r (int a) = shift_month ?r (int b)"
    then have "month_index (shift_month ?r (int a)) = month_index (shift_month ?r (int b))"
      by simp
    then show "a = b"
      by (simp add: shift_month_day_1 [OF day_rollforward_MS])
  qed
  then show ?thesis
    by (simp add: date_range_MS_def distinct_map)
qed

lemma future_dates_props:
  "distinct (future_dates last_date periods)"
  "d \<in> set (future_dates last_date periods) \<Longrightarrow> last_date < d"
proof -
  show "distinct (future_dates last_date periods)"
    by (simp add: future_dates_def distinct_date_range_MS)
  assume "d \<in> set (future_dates last_date periods)"
  then have "d \<in> set (filter (\<lambda>d. last_date < d) (date_range_MS last_date (periods + 1)))"
    unfolding future_dates_def by (rule in_set_takeD)
  then show "last_date < d" by simp
qed

lemma make_future_dataframe_distinct:
  assumes "fit train = Inr m" and "make_future_dataframe m periods = Inr future"
  shows "distinct future"
proof -
  have hd: "history_dates m = sort (remdups (map fst train))"
    using assms(1) by (auto simp: fit_def split: if_splits)
  from assms(2) obtain last_date where mx: "max_ds (history_dates m) = Some last_date"
    and fut: "future = history_dates m @ future_dates last_date periods"
    by (auto simp: make_future_dataframe_def split: option.splits)
  have ne: "history_dates m \<noteq> []"
    using mx by (auto simp: max_ds_def)
  have last: "last_date = Max (set (history_dates m))"
    using max_ds_Max [OF ne] mx by simp
  have le: "d \<le> last_date" if "d \<in> set (history_dates m)" for d
    unfolding last using that by (intro Max_ge) auto
  have "set (history_dates m) \<inter> set (future_dates last_date periods) = {}"
    using le future_dates_props(2) [of _ last_date periods] by fastforce
  moreover have "distinct (history_dates m)"
    by (simp add: hd)
  ultimately show ?thesis
    by (simp add: fut future_dates_props(1))
qed

lemma notebook_tables_one_row_per_date:
  assumes "monthly = monthly_spend df city category"
    and "fit (train_df monthly) = Inr m"
    and "make_future_dataframe m periods = Inr future"
    and "predict yhat m future = Inr forecast"
  shows "distinct (map fst (test_df monthly))" and "distinct (map fst forecast)"
proof -
  have "distinct (map fst monthly)"
    unfolding assms(1) by (simp add: monthly_spend_def groupby_sum_keys)
  then show "distinct (map fst (test_df monthly))"
    unfolding test_df_def by (rule distinct_map_filter)
  have "map fst forecast = sort future"
    using assms(4) by (auto simp: predict_def comp_def split: if_splits)
  then show "distinct (map fst forecast)"
    using make_future_dataframe_distinct [OF assms(2,3)] by simp
qed

lemma notebook_evaluation_records:
  assumes "monthly = monthly_spend df city category"
    and "fit (train_df monthly) = Inr m"
    and "make_future_dataframe m periods = Inr future"
    and "predict yhat m future = Inr forecast"
  shows "length (eval_df (test_df monthly) forecast)
         \<le> min (length (test_df monthly)) (length forecast)"
  using notebook_tables_one_row_per_date [OF assms]
    length_inner_join_le_left [of forecast "test_df monthly"]
    length_inner_join_le_right [of "test_df monthly" forecast]
  by (simp add: eval_df_inner_join)

subsection \<open>The join\<close>

text \<open>
  C4. The left merge followed by \<open>dropna\<close> is the inner join on the date: its rows are
  exactly the combinations of a holdout row and a forecast row with the same date, so its
  dates are exactly the dates present in both tables. When the dates of each table are
  distinct (a holdout series and a forecast table have one row per date; for the tables
  of a run this is \<open>notebook_tables_one_row_per_date\<close>), there are at most
  \<open>min (length test) (length forecast)\<close> evaluation records.
\<close>

theorem eval_join_is_inner:
  "eval_df test forecast = inner_join test forecast
   \<and> set (eval_df test forecast) = {(d, y, yh). (d, y) \<in> set test \<and> (d, yh) \<in> set forecast}
   \<and> fst ` set (eval_df test forecast) = fst ` set test \<inter> fst ` set forecast
   \<and> (distinct (map fst test) \<and> distinct (map fst forecast) \<longrightarrow>
        length (eval_df test forecast) \<le> min (length test) (length forecast))"
proof -
  have eq: "eval_df test forecast = inner_join test forecast"
    by (rule eval_df_inner_join)
  have rows: "set (eval_df test forecast) = {(d, y, yh). (d, y) \<in> set test \<and> (d, yh) \<in> set forecast}"
    unfolding eq by (rule set_inner_join)
  have dates: "fst ` set (eval_df test forecast) = fst ` set test \<inter> fst ` set forecast"
    unfolding eq by (rule dates_inner_join)
  have "length (eval_df test forecast) \<le> min (length test) (length forecast)"
    if "distinct (map fst test)" and "distinct (map fst forecast)"
    unfolding eq
    using length_inner_join_le_left [OF that(2), of test]
      length_inner_join_le_right [OF that(1), of forecast]
    by simp
  with eq rows dates show ?thesis by blast
qed

lemma ex_eval: "eval_df ex_test ex_forecast = [((2014, 6, 1), 180, 182)]"
  by (simp add: eval_df_def merge_left_def dropna_def ex_test_def ex_forecast_def)

theorem eval_join_is_inner_witness:
  "distinct (map fst ex_test) \<and> distinct (map fst ex_forecast)
   \<and> eval_df ex_test ex_forecast = [((2014, 6, 1), 180, 182)]
   \<and> inner_join ex_test ex_forecast = [((2014, 6, 1), 180, 182)]
   \<and> length (eval_df ex_test ex_forecast) \<le> min (length ex_test) (length ex_forecast)"
proof -
  have d: "distinct (map fst ex_test) \<and> distinct (map fst ex_forecast)"
    by (simp add: ex_test_def ex_forecast_def)
  from eval_join_is_inner [of ex_test ex_forecast] d
  have "eval_df ex_test ex_forecast = inner_join ex_test ex_forecast"
    and "length (eval_df ex_test ex_forecast) \<le> min (length ex_test) (length ex_forecast)"
    by blast+
  with d ex_eval show ?thesis by simp
qed

lemma sum_list_map2_abs:
  fixes f g :: "'b \<Rightarrow> real"
  shows "sum_list (map2 (\<lambda>t p. \<bar>p - t\<bar>) (map f ev) (map g ev)) = (\<Sum>r\<leftarrow>ev. \<bar>f r - g r\<bar>)"
  by (induction ev) (simp_all add: abs_minus_commute)

lemma mae_nonempty:
  "ev \<noteq> [] \<Longrightarrow>
     mae ev = Inr ((\<Sum>r\<leftarrow>ev. \<bar>fst (snd r) - snd (snd r)\<bar>) / real (length ev))"
  by (simp add: mae_def mean_absolute_error_def sum_list_map2_abs)

lemma mae_empty: "mae [] = Inl ValueError"
  by (simp add: mae_def mean_absolute_error_def)

text \<open>
  C8. On every non-empty evaluation set the metric is defined and equals the mean of
  \<open>|actual - predicted|\<close> over the joined rows; it is non-negative, and it is zero
  exactly when actual and predicted agree in every row.
\<close>

theorem mae_mean_abs:
  assumes "ev \<noteq> []"
  shows "\<exists>v. mae ev = Inr v
           \<and> v = (\<Sum>r\<leftarrow>ev. \<bar>fst (snd r) - snd (snd r)\<bar>) / real (length ev)
           \<and> 0 \<le> v
           \<and> (v = 0 \<longleftrightarrow> (\<forall>r\<in>set ev. fst (snd r) = snd (snd r)))"
proof -
  let ?errs = "map (\<lambda>r. \<bar>fst (snd r) - snd (snd r)\<bar>) ev"
  define v where "v = sum_list ?errs / real (length ev)"
  have len: "0 < real (length ev)" using assms by simp
  have nonneg: "0 \<le> sum_list ?errs"
    by (rule sum_list_nonneg) auto
  have "v = 0 \<longleftrightarrow> sum_list ?errs = 0"
    using len by (simp add: v_def)
  also have "\<dots> \<longleftrightarrow> (\<forall>x\<in>set ?errs. x = 0)"
    by (rule sum_list_nonneg_eq_0_iff) auto
  also have "\<dots> \<longleftrightarrow> (\<forall>r\<in>set ev. fst (snd r) = snd (snd r))"
    by auto
  finally have zero: "v = 0 \<longleftrightarrow> (\<forall>r\<in>set ev. fst (snd r) = snd (snd r))" .
  have "0 \<le> v" using nonneg len by (simp add: v_def)
  with zero mae_nonempty [OF assms] show ?thesis
    by (simp add: v_def)
qed

theorem mae_mean_abs_witness:
  "[((2014, 6, 1), 180, 182), ((2014, 7, 1), 190, 187)] \<noteq> ([] :: (date \<times> real \<times> real) list)
   \<and> mae [((2014, 6, 1), 180, 182), ((2014, 7, 1), 190, 187)] = Inr (5 / 2)"
  using mae_mean_abs [of "[((2014, 6, 1), 180, 182), ((2014, 7, 1), 190, 187)]"]
  by auto

section \<open>Properties of the notebook run\<close>

lemma groupby_sum_Nil: "groupby_sum [] = []"
  by (simp add: groupby_sum_def)

lemma monthly_spend_no_match:
  assumes "\<forall>t\<in>set df. \<not> (City t = city \<and> Exp_Type t = category)"
  shows "monthly_spend df city category = []"
proof -
  have "filter (mask_df city category) df = []"
    using assms by (simp add: filter_empty_conv mask_df_def)
  then show ?thesis
    by (simp add: monthly_spend_def df_city_cat_def groupby_sum_Nil)
qed

lemma split_Nil: "train_df [] = []" "test_df [] = []"
  by (simp_all add: train_df_def test_df_def)

lemma fit_Nil: "fit [] = Inl ValueError"
  by (simp add: fit_def)

lemma notebook_empty_series:
  assumes "monthly_spend df city category = []"
    and "makedirs e = None" and "savefig e monthly_spend_plot = None"
  shows "notebook e yhat df city category
         = ([Monthly_spend [], Saved monthly_spend_plot, Train_test [] []], Some ValueError)"
  using assms by (simp add: notebook_def split_Nil fit_Nil)

lemma notebook_empty_series_fails:
  assumes "monthly_spend df city category = []"
  shows "snd (notebook e yhat df city category) \<noteq> None"
    and "Forecasted f \<notin> set (fst (notebook e yhat df city category))"
    and "MAE v \<notin> set (fst (notebook e yhat df city category))"
  using assms by (simp_all add: notebook_def Let_def split_Nil fit_Nil split: option.splits)

lemma notebook_forecast_plot_fails:
  assumes "savefig e prophet_forecast_plot = Some x"
  shows "snd (notebook e yhat df city category) \<noteq> None"
    and "MAE v \<notin> set (fst (notebook e yhat df city category))"
  using assms by (simp_all add: notebook_def Let_def split: option.splits sum.splits)

lemma notebook_stages:
  assumes "monthly_spend df city category = monthly"
    and "train_df monthly = train" and "test_df monthly = test"
    and "fit train = Inr m"
    and "make_future_dataframe m 6 = Inr future"
    and "predict yhat m future = Inr forecast"
    and "filter (\<lambda>r. gt_NaT (fst r) (max_ds (map fst train))) forecast = future_only"
    and "eval_df test forecast = ev"
  shows "notebook e yhat df city category =
    (case makedirs e of Some x \<Rightarrow> ([Monthly_spend monthly], Some x) | None \<Rightarrow>
     case savefig e monthly_spend_plot of Some x \<Rightarrow> ([Monthly_spend monthly], Some x) | None \<Rightarrow>
     case savefig e prophet_forecast_plot of
       Some x \<Rightarrow> ([Monthly_spend monthly, Saved monthly_spend_plot, Train_test train test,
                    Forecasted future_only], Some x)
     | None \<Rightarrow>
     case mae ev of
       Inl x \<Rightarrow> ([Monthly_spend monthly, Saved monthly_spend_plot, Train_test train test,
                   Forecasted future_only, Saved prophet_forecast_plot], Some x)
     | Inr v \<Rightarrow>
     case savefig e prophet_components_plot of
       Some x \<Rightarrow> ([Monthly_spend monthly, Saved monthly_spend_plot, Train_test train test,
                    Forecasted future_only, Saved prophet_forecast_plot, MAE v,
                    Actual_vs_forecast ev], Some x)
     | None \<Rightarrow> ([Monthly_spend monthly, Saved monthly_spend_plot, Train_test train test,
                   Forecasted future_only, Saved prophet_forecast_plot, MAE v,
                   Actual_vs_forecast ev, Saved prophet_components_plot,
                   Test_dates (map fst test), Forecast_dates (map fst future_only)], None))"
  using assms by (simp add: notebook_def Let_def split: option.splits sum.splits)

lemma run_monthly:
  "monthly_spend df_run ''Bengaluru, India'' ''Food'' =
     [((2014, 1, 1), 100), ((2014, 2, 1), 200), ((2014, 8, 1), 310)]"
  by (simp add: monthly_spend_def groupby_sum_def df_city_cat_def mask_df_def YearMonth_def
      to_period_M_to_timestamp_def df_run_def year_def month_def)

lemma run_cutoff:
  "train_cutoff [((2014, 1, 1), 100 :: real), ((2014, 2, 1), 200), ((2014, 8, 1), 310)] = Some (2014, 2, 1)"
  by (simp add: train_cutoff_def max_ds_def date_simps)

lemma run_train:
  "train_df [((2014, 1, 1), 100 :: real), ((2014, 2, 1), 200), ((2014, 8, 1), 310)]
     = [((2014, 1, 1), 100), ((2014, 2, 1), 200)]"
  by (simp add: train_df_Some [OF run_cutoff])

lemma run_test:
  "test_df [((2014, 1, 1), 100 :: real), ((2014, 2, 1), 200), ((2014, 8, 1), 310)]
     = [((2014, 8, 1), 310)]"
  by (simp add: test_df_Some [OF run_cutoff])

lemma run_fit:
  "fit [((2014, 1, 1), 100 :: real), ((2014, 2, 1), 200)]
     = Inr \<lparr>history = [((2014, 1, 1), 100), ((2014, 2, 1), 200)],
            history_dates = [(2014, 1, 1), (2014, 2, 1)]\<rparr>"
  by (simp add: fit_def)

lemma run_future_dates:
  "future_dates (2014, 2, 1) 6 =
     [(2014, 3, 1), (2014, 4, 1), (2014, 5, 1), (2014, 6, 1), (2014, 7, 1), (2014, 8, 1)]"
  by (simp add: future_dates_def date_range_MS_def rollforward_MS_def upt_rec date_simps)

lemma run_future:
  "make_future_dataframe \<lparr>history = h, history_dates = [(2014, 1, 1), (2014, 2, 1)]\<rparr> 6 =
     Inr [(2014, 1, 1), (2014, 2, 1),
          (2014, 3, 1), (2014, 4, 1), (2014, 5, 1), (2014, 6, 1), (2014, 7, 1), (2014, 8, 1)]"
  by (simp add: make_future_dataframe_def max_ds_def run_future_dates)

lemma run_predict:
  "predict flat_predictor m
     [(2014, 1, 1), (2014, 2, 1),
      (2014, 3, 1), (2014, 4, 1), (2014, 5, 1), (2014, 6, 1), (2014, 7, 1), (2014, 8, 1)] =
   Inr [((2014, 1, 1), 300), ((2014, 2, 1), 300), ((2014, 3, 1), 300), ((2014, 4, 1), 300),
        ((2014, 5, 1), 300), ((2014, 6, 1), 300), ((2014, 7, 1), 300), ((2014, 8, 1), 300)]"
  by (simp add: predict_def flat_predictor_def)

lemma run_future_only:
  "filter (\<lambda>r. gt_NaT (fst r) (max_ds (map fst [((2014, 1, 1), 100 :: real), ((2014, 2, 1), 200)])))
     [((2014, 1, 1), 300 :: real), ((2014, 2, 1), 300), ((2014, 3, 1), 300), ((2014, 4, 1), 300),
      ((2014, 5, 1), 300), ((2014, 6, 1), 300), ((2014, 7, 1), 300), ((2014, 8, 1), 300)] =
   [((2014, 3, 1), 300), ((2014, 4, 1), 300), ((2014, 5, 1), 300),
    ((2014, 6, 1), 300), ((2014, 7, 1), 300), ((2014, 8, 1), 300)]"
  by (simp add: gt_NaT_def max_ds_def)

lemma run_eval:
  "eval_df [((2014, 8, 1), 310 :: real)]
     [((2014, 1, 1), 300 :: real), ((2014, 2, 1), 300), ((2014, 3, 1), 300), ((2014, 4, 1), 300),
      ((2014, 5, 1), 300), ((2014, 6, 1), 300), ((2014, 7, 1), 300), ((2014, 8, 1), 300)] =
   [((2014, 8, 1), 310, 300)]"
  by (simp add: eval_df_def merge_left_def dropna_def)

lemma run_mae: "mae [((2014, 8, 1), 310, 300)] = Inr 10"
  by (simp add: mae_def mean_absolute_error_def)

lemmas run_stages =
  notebook_stages [OF run_monthly run_train run_test run_fit run_future run_predict
    run_future_only run_eval]

lemma run_ok:
  "notebook ok_env flat_predictor df_run ''Bengaluru, India'' ''Food'' =
    ([Monthly_spend [((2014, 1, 1), 100), ((2014, 2, 1), 200), ((2014, 8, 1), 310)],
      Saved monthly_spend_plot,
      Train_test [((2014, 1, 1), 100), ((2014, 2, 1), 200)] [((2014, 8, 1), 310)],
      Forecasted [((2014, 3, 1), 300), ((2014, 4, 1), 300), ((2014, 5, 1), 300),
                  ((2014, 6, 1), 300), ((2014, 7, 1), 300), ((2014, 8, 1), 300)],
      Saved prophet_forecast_plot,
      MAE 10,
      Actual_vs_forecast [((2014, 8, 1), 310, 300)],
      Saved prophet_components_plot,
      Test_dates [(2014, 8, 1)],
      Forecast_dates [(2014, 3, 1), (2014, 4, 1), (2014, 5, 1), (2014, 6, 1), (2014, 7, 1),
                      (2014, 8, 1)]],
     None)"
  by (simp add: run_stages ok_env_def run_mae)

lemma run_forecast_plot_unwritable:
  "notebook forecast_plot_unwritable flat_predictor df_run ''Bengaluru, India'' ''Food'' =
    ([Monthly_spend [((2014, 1, 1), 100), ((2014, 2, 1), 200), ((2014, 8, 1), 310)],
      Saved monthly_spend_plot,
      Train_test [((2014, 1, 1), 100), ((2014, 2, 1), 200)] [((2014, 8, 1), 310)],
      Forecasted [((2014, 3, 1), 300), ((2014, 4, 1), 300), ((2014, 5, 1), 300),
                  ((2014, 6, 1), 300), ((2014, 7, 1), 300), ((2014, 8, 1), 300)]],
     Some OSError)"
  by (simp add: run_stages forecast_plot_unwritable_def run_mae
      monthly_spend_plot_def prophet_forecast_plot_def)

lemma run_components_plot_unwritable:
  "notebook components_plot_unwritable flat_predictor df_run ''Bengaluru, India'' ''Food'' =
    ([Monthly_spend [((2014, 1, 1), 100), ((2014, 2, 1), 200), ((2014, 8, 1), 310)],
      Saved monthly_spend_plot,
      Train_test [((2014, 1, 1), 100), ((2014, 2, 1), 200)] [((2014, 8, 1), 310)],
      Forecasted [((2014, 3, 1), 300), ((2014, 4, 1), 300), ((2014, 5, 1), 300),
                  ((2014, 6, 1), 300), ((2014, 7, 1), 300), ((2014, 8, 1), 300)],
      Saved prophet_forecast_plot,
      MAE 10,
      Actual_vs_forecast [((2014, 8, 1), 310, 300)]],
     Some OSError)"
  by (simp add: run_stages components_plot_unwritable_def run_mae
      monthly_spend_plot_def prophet_forecast_plot_def prophet_components_plot_def)

lemma gap_monthly:
  "monthly_spend df_gap ''Bengaluru, India'' ''Food'' =
     [((2013, 1, 1), 100), ((2013, 2, 1), 200), ((2014, 12, 1), 300)]"
  by (simp add: monthly_spend_def groupby_sum_def df_city_cat_def mask_df_def YearMonth_def
      to_period_M_to_timestamp_def df_gap_def year_def month_def)

lemma gap_cutoff:
  "train_cutoff [((2013, 1, 1), 100 :: real), ((2013, 2, 1), 200), ((2014, 12, 1), 300)] = Some (2014, 6, 1)"
  by (simp add: train_cutoff_def max_ds_def date_simps)

lemma gap_train:
  "train_df [((2013, 1, 1), 100 :: real), ((2013, 2, 1), 200), ((2014, 12, 1), 300)]
     = [((2013, 1, 1), 100), ((2013, 2, 1), 200)]"
  by (simp add: train_df_Some [OF gap_cutoff])

lemma gap_test:
  "test_df [((2013, 1, 1), 100 :: real), ((2013, 2, 1), 200), ((2014, 12, 1), 300)]
     = [((2014, 12, 1), 300)]"
  by (simp add: test_df_Some [OF gap_cutoff])

lemma gap_fit:
  "fit [((2013, 1, 1), 100 :: real), ((2013, 2, 1), 200)]
     = Inr \<lparr>history = [((2013, 1, 1), 100), ((2013, 2, 1), 200)],
            history_dates = [(2013, 1, 1), (2013, 2, 1)]\<rparr>"
  by (simp add: fit_def)

lemma gap_future_dates:
  "future_dates (2013, 2, 1) 6 =
     [(2013, 3, 1), (2013, 4, 1), (2013, 5, 1), (2013, 6, 1), (2013, 7, 1), (2013, 8, 1)]"
  by (simp add: future_dates_def date_range_MS_def rollforward_MS_def upt_rec date_simps)

lemma gap_future:
  "make_future_dataframe \<lparr>history = h, history_dates = [(2013, 1, 1), (2013, 2, 1)]\<rparr> 6 =
     Inr [(2013, 1, 1), (2013, 2, 1),
          (2013, 3, 1), (2013, 4, 1), (2013, 5, 1), (2013, 6, 1), (2013, 7, 1), (2013, 8, 1)]"
  by (simp add: make_future_dataframe_def max_ds_def gap_future_dates)

lemma gap_predict:
  "predict flat_predictor m
     [(2013, 1, 1), (2013, 2, 1),
      (2013, 3, 1), (2013, 4, 1), (2013, 5, 1), (2013, 6, 1), (2013, 7, 1), (2013, 8, 1)] =
   Inr forecast_2013"
  by (simp add: predict_def flat_predictor_def forecast_2013_def)

lemma gap_future_only:
  "filter (\<lambda>r. gt_NaT (fst r) (max_ds (map fst [((2013, 1, 1), 100 :: real), ((2013, 2, 1), 200)])))
     forecast_2013 =
   [((2013, 3, 1), 300), ((2013, 4, 1), 300), ((2013, 5, 1), 300),
    ((2013, 6, 1), 300), ((2013, 7, 1), 300), ((2013, 8, 1), 300)]"
  by (simp add: gt_NaT_def max_ds_def forecast_2013_def)

lemma gap_eval: "eval_df test_2014_12 forecast_2013 = []"
  by (simp add: eval_df_def merge_left_def dropna_def test_2014_12_def forecast_2013_def)

lemmas gap_stages =
  notebook_stages [OF gap_monthly gap_train gap_test gap_fit gap_future gap_predict
    gap_future_only gap_eval [unfolded test_2014_12_def]]

lemma gap_run:
  "notebook ok_env flat_predictor df_gap ''Bengaluru, India'' ''Food'' =
    ([Monthly_spend [((2013, 1, 1), 100), ((2013, 2, 1), 200), ((2014, 12, 1), 300)],
      Saved monthly_spend_plot,
      Train_test [((2013, 1, 1), 100), ((2013, 2, 1), 200)] [((2014, 12, 1), 300)],
      Forecasted [((2013, 3, 1), 300), ((2013, 4, 1), 300), ((2013, 5, 1), 300),
                  ((2013, 6, 1), 300), ((2013, 7, 1), 300), ((2013, 8, 1), 300)],
      Saved prophet_forecast_plot],
     Some ValueError)"
  by (simp add: gap_stages ok_env_def mae_empty)

lemma df_other_no_match:
  "\<forall>t\<in>set df_other. \<not> (City t = ''Bengaluru, India'' \<and> Exp_Type t = ''Food'')"
  by (simp add: df_other_def)

text \<open>
  On a frame without a matching row the run ends in the forecaster's \<open>ValueError\<close>,
  which is not the distinct filter error.
\<close>

theorem empty_filter_counterexample:
  "monthly_spend df_other ''Bengaluru, India'' ''Food'' = []
   \<and> notebook ok_env flat_predictor df_other ''Bengaluru, India'' ''Food''
       = ([Monthly_spend [], Saved monthly_spend_plot, Train_test [] []], Some ValueError)
   \<and> snd (notebook ok_env flat_predictor df_other ''Bengaluru, India'' ''Food'')
       \<noteq> Some FilterEmptyError"
proof -
  have m: "monthly_spend df_other ''Bengaluru, India'' ''Food'' = []"
    by (rule monthly_spend_no_match [OF df_other_no_match])
  have "notebook ok_env flat_predictor df_other ''Bengaluru, India'' ''Food''
       = ([Monthly_spend [], Saved monthly_spend_plot, Train_test [] []], Some ValueError)"
    by (rule notebook_empty_series [OF m]) (simp_all add: ok_env_def)
  with m show ?thesis by simp
qed

text \<open>
  C6 (as amended). For every filter matching zero transactions the aggregation yields
  an empty monthly series, not an error. Passed downstream, that series never yields a
  forecast or a metric and the run ends with an exception; when the directory and the
  history plot are written, the split gives two empty parts and the forecaster's
  \<open>fit\<close> rejects the empty training frame with the library's \<open>ValueError\<close>. No
  \<open>FilterEmptyError\<close> is raised.
\<close>

theorem empty_filter_run:
  assumes "\<forall>t\<in>set df. \<not> (City t = city \<and> Exp_Type t = category)"
  shows "monthly_spend df city category = []
    \<and> snd (notebook e yhat df city category) \<noteq> None
    \<and> (\<forall>f. Forecasted f \<notin> set (fst (notebook e yhat df city category)))
    \<and> (\<forall>v. MAE v \<notin> set (fst (notebook e yhat df city category)))
    \<and> (makedirs e = None \<and> savefig e monthly_spend_plot = None \<longrightarrow>
         notebook e yhat df city category
         = ([Monthly_spend [], Saved monthly_spend_plot, Train_test [] []], Some ValueError))"
proof -
  have m: "monthly_spend df city category = []"
    by (rule monthly_spend_no_match [OF assms])
  show ?thesis
    using m notebook_empty_series_fails [OF m, where e = e and yhat = yhat]
      notebook_empty_series [OF m, where e = e and yhat = yhat]
    by blast
qed

theorem empty_filter_run_witness:
  "filter (\<lambda>t. City t = ''Bengaluru, India'' \<and> Exp_Type t = ''Food'') df_other = []
   \<and> makedirs ok_env = None \<and> savefig ok_env monthly_spend_plot = None
   \<and> monthly_spend df_other ''Bengaluru, India'' ''Food'' = []
   \<and> snd (notebook ok_env flat_predictor df_other ''Bengaluru, India'' ''Food'') = Some ValueError"
proof -
  have env: "makedirs ok_env = None \<and> savefig ok_env monthly_spend_plot = None"
    by (simp add: ok_env_def)
  from empty_filter_run [OF df_other_no_match, where e = ok_env and yhat = flat_predictor] env
  have "monthly_spend df_other ''Bengaluru, India'' ''Food'' = []"
    and "notebook ok_env flat_predictor df_other ''Bengaluru, India'' ''Food''
         = ([Monthly_spend [], Saved monthly_spend_plot, Train_test [] []], Some ValueError)"
    by blast+
  with df_other_no_match env show ?thesis by (simp add: filter_empty_conv)
qed

text \<open>
  A series with months in early 2013 and one in December 2014: the horizon ends in
  August 2013, the join is empty, and the run ends with \<open>ValueError\<close>.
\<close>

theorem no_overlap_counterexample:
  "eval_df test_2014_12 forecast_2013 = []
   \<and> mae (eval_df test_2014_12 forecast_2013) = Inl ValueError
   \<and> mae (eval_df test_2014_12 forecast_2013) \<noteq> Inl EvaluationOverlapError
   \<and> snd (notebook ok_env flat_predictor df_gap ''Bengaluru, India'' ''Food'') = Some ValueError"
  by (simp add: gap_eval mae_empty gap_run)

text \<open>
  C7 (as amended). The evaluation join is empty exactly when holdout and forecast share
  no date, and then the evaluator fails: the metric function raises the library's
  \<open>ValueError\<close> and returns no number (neither zero nor NaN). The failure is not a
  distinct \<open>EvaluationOverlapError\<close>.
\<close>

theorem no_overlap_value_error:
  fixes test :: "(date \<times> real) list" and forecast :: "(date \<times> real) list"
  shows "(eval_df test forecast = [] \<longleftrightarrow> fst ` set test \<inter> fst ` set forecast = {})
    \<and> (eval_df test forecast = [] \<longrightarrow>
          mae (eval_df test forecast) = Inl ValueError
        \<and> (\<forall>v. mae (eval_df test forecast) \<noteq> Inr v))"
proof -
  have "eval_df test forecast = [] \<longleftrightarrow> fst ` set (inner_join test forecast) = {}"
    by (simp add: eval_df_inner_join)
  then have "eval_df test forecast = [] \<longleftrightarrow> fst ` set test \<inter> fst ` set forecast = {}"
    unfolding dates_inner_join .
  then show ?thesis
    by (auto simp: mae_empty)
qed

theorem no_overlap_value_error_witness:
  "fst ` set test_2014_12 \<inter> fst ` set forecast_2013 = {}
   \<and> eval_df test_2014_12 forecast_2013 = []
   \<and> mae (eval_df test_2014_12 forecast_2013) = Inl ValueError"
  using no_overlap_value_error [of test_2014_12 forecast_2013] gap_eval by blast

text \<open>
  The same frame run twice: with every write succeeding the MAE is reported; with the
  forecast plot unwritable the run stops after the forecast table and reports no MAE.
\<close>

theorem forecast_plot_failure_counterexample:
  "notebook ok_env flat_predictor df_run ''Bengaluru, India'' ''Food'' =
    ([Monthly_spend [((2014, 1, 1), 100), ((2014, 2, 1), 200), ((2014, 8, 1), 310)],
      Saved monthly_spend_plot,
      Train_test [((2014, 1, 1), 100), ((2014, 2, 1), 200)] [((2014, 8, 1), 310)],
      Forecasted [((2014, 3, 1), 300), ((2014, 4, 1), 300), ((2014, 5, 1), 300),
                  ((2014, 6, 1), 300), ((2014, 7, 1), 300), ((2014, 8, 1), 300)],
      Saved prophet_forecast_plot,
      MAE 10,
      Actual_vs_forecast [((2014, 8, 1), 310, 300)],
      Saved prophet_components_plot,
      Test_dates [(2014, 8, 1)],
      Forecast_dates [(2014, 3, 1), (2014, 4, 1), (2014, 5, 1), (2014, 6, 1), (2014, 7, 1),
                      (2014, 8, 1)]],
     None)
   \<and> notebook forecast_plot_unwritable flat_predictor df_run ''Bengaluru, India'' ''Food'' =
    ([Monthly_spend [((2014, 1, 1), 100), ((2014, 2, 1), 200), ((2014, 8, 1), 310)],
      Saved monthly_spend_plot,
      Train_test [((2014, 1, 1), 100), ((2014, 2, 1), 200)] [((2014, 8, 1), 310)],
      Forecasted [((2014, 3, 1), 300), ((2014, 4, 1), 300), ((2014, 5, 1), 300),
                  ((2014, 6, 1), 300), ((2014, 7, 1), 300), ((2014, 8, 1), 300)]],
     Some OSError)
   \<and> MAE 10 \<notin> set (fst (notebook forecast_plot_unwritable flat_predictor df_run
                              ''Bengaluru, India'' ''Food''))"
  by (simp add: run_ok run_forecast_plot_unwritable)

text \<open>
  C9 (as amended). A failure while saving a plot ends the run at that statement. What was
  reported before it stays reported (the report is the corresponding prefix of the
  report of the failure-free run), and nothing after it is produced. A failure when
  saving the forecast plot therefore leaves the forecast reported but prevents the
  evaluation: no MAE is produced. Only a failure when saving the components plot, which
  is saved after the evaluation, leaves the MAE reported.
\<close>

theorem plot_failure_ends_run:
  "(savefig e prophet_forecast_plot = Some x \<longrightarrow>
       snd (notebook e yhat df city category) \<noteq> None
     \<and> (\<forall>v. MAE v \<notin> set (fst (notebook e yhat df city category))))
   \<and> (notebook ok_env yhat df city category = (reps, None)
        \<and> makedirs e = None \<and> savefig e monthly_spend_plot = None \<longrightarrow>
         (savefig e prophet_forecast_plot = Some x \<longrightarrow>
            notebook e yhat df city category = (take 4 reps, Some x))
       \<and> (savefig e prophet_forecast_plot = None \<and> savefig e prophet_components_plot = Some x \<longrightarrow>
            notebook e yhat df city category = (take 7 reps, Some x)
          \<and> (\<exists>v. MAE v \<in> set (take 7 reps))))"
proof -
  have first: "snd (notebook e yhat df city category) \<noteq> None
     \<and> (\<forall>v. MAE v \<notin> set (fst (notebook e yhat df city category)))"
    if "savefig e prophet_forecast_plot = Some x"
    using notebook_forecast_plot_fails [OF that] by blast
  have second: "notebook e yhat df city category = (take 4 reps, Some x)"
    if "notebook ok_env yhat df city category = (reps, None)"
      and "makedirs e = None" and "savefig e monthly_spend_plot = None"
      and "savefig e prophet_forecast_plot = Some x"
    using that
    by (auto simp: notebook_def Let_def ok_env_def split: option.splits sum.splits)
  have third: "notebook e yhat df city category = (take 7 reps, Some x)
          \<and> (\<exists>v. MAE v \<in> set (take 7 reps))"
    if "notebook ok_env yhat df city category = (reps, None)"
      and "makedirs e = None" and "savefig e monthly_spend_plot = None"
      and "savefig e prophet_forecast_plot = None"
      and "savefig e prophet_components_plot = Some x"
    using that
    by (auto simp: notebook_def Let_def ok_env_def split: option.splits sum.splits)
  from first second third show ?thesis by blast
qed

lemma forecast_plot_unwritable_env:
  "makedirs forecast_plot_unwritable = None"
  "savefig forecast_plot_unwritable monthly_spend_plot = None"
  "savefig forecast_plot_unwritable prophet_forecast_plot = Some OSError"
  by (simp_all add: forecast_plot_unwritable_def monthly_spend_plot_def prophet_forecast_plot_def)

lemma components_plot_unwritable_env:
  "makedirs components_plot_unwritable = None"
  "savefig components_plot_unwritable monthly_spend_plot = None"
  "savefig components_plot_unwritable prophet_forecast_plot = None"
  "savefig components_plot_unwritable prophet_components_plot = Some OSError"
  by (simp_all add: components_plot_unwritable_def monthly_spend_plot_def
      prophet_forecast_plot_def prophet_components_plot_def)

theorem plot_failure_ends_run_witness:
  "snd (notebook ok_env flat_predictor df_run ''Bengaluru, India'' ''Food'') = None
   \<and> savefig forecast_plot_unwritable prophet_forecast_plot = Some OSError
   \<and> notebook forecast_plot_unwritable flat_predictor df_run ''Bengaluru, India'' ''Food''
       = (take 4 (fst (notebook ok_env flat_predictor df_run ''Bengaluru, India'' ''Food'')),
          Some OSError)
   \<and> (\<forall>v. MAE v \<notin> set (fst (notebook forecast_plot_unwritable flat_predictor df_run
                                   ''Bengaluru, India'' ''Food'')))
   \<and> savefig components_plot_unwritable prophet_forecast_plot = None
   \<and> savefig components_plot_unwritable prophet_components_plot = Some OSError
   \<and> notebook components_plot_unwritable flat_predictor df_run ''Bengaluru, India'' ''Food''
       = (take 7 (fst (notebook ok_env flat_predictor df_run ''Bengaluru, India'' ''Food'')),
          Some OSError)"
proof -
  let ?ok = "notebook ok_env flat_predictor df_run ''Bengaluru, India'' ''Food''"
  have fin: "snd ?ok = None"
    by (simp add: run_ok)
  then have ok: "?ok = (fst ?ok, None)"
    by (simp add: prod_eq_iff)
  from plot_failure_ends_run [where e = forecast_plot_unwritable and x = OSError
      and yhat = flat_predictor and df = df_run and city = "''Bengaluru, India''"
      and category = "''Food''" and reps = "fst ?ok"]
    ok forecast_plot_unwritable_env
  have a: "notebook forecast_plot_unwritable flat_predictor df_run ''Bengaluru, India'' ''Food''
       = (take 4 (fst ?ok), Some OSError)"
    and b: "\<forall>v. MAE v \<notin> set (fst (notebook forecast_plot_unwritable flat_predictor df_run
                                   ''Bengaluru, India'' ''Food''))"
    by blast+
  from plot_failure_ends_run [where e = components_plot_unwritable and x = OSError
      and yhat = flat_predictor and df = df_run and city = "''Bengaluru, India''"
      and category = "''Food''" and reps = "fst ?ok"]
    ok components_plot_unwritable_env
  have c: "notebook components_plot_unwritable flat_predictor df_run ''Bengaluru, India'' ''Food''
       = (take 7 (fst ?ok), Some OSError)"
    by blast
  from fin forecast_plot_unwritable_env(3) a b components_plot_unwritable_env(3,4) c
  show ?thesis by (intro conjI)
qed

end
